theory Spec2Isabelle
  imports Complex_Main "HOL-Library.AList"
begin

section \<open>Data model of the allocation engine\<close>

text \<open>
  The engine is the class \<open>MemoryManager\<close> of \<open>memory_allocation_engine.py\<close>.
  Python integers are unbounded, so every address, size and process id is an \<open>int\<close>.
  The dictionaries with fixed keys become records; the field names carry a short
  prefix where two dictionaries use the same key.
\<close>

datatype AllocationMethod = PAGING | SEGMENTATION

datatype py_error = ZeroDivisionError

text \<open>An entry of \<open>self.memory\<close>: keys \<open>start\<close>, \<open>end\<close>, \<open>size\<close>, \<open>process_id\<close>.\<close>

record block =
  blk_start :: int
  blk_end :: int
  blk_size :: int
  blk_process_id :: "int option"

text \<open>An entry of \<open>self.page_table\<close>.\<close>

record frame =
  frame_id :: int
  frm_process_id :: "int option"
  start_address :: int
  end_address :: int

text \<open>
  A value of \<open>self.allocated_processes\<close>: the key \<open>method\<close> selects which of
  \<open>frames\<close> or \<open>start\<close>/\<open>end\<close> is present.
\<close>

datatype process_info =
  Paging_info int "int list"
| Segmentation_info int int int

fun info_size :: "process_info \<Rightarrow> int" where
  "info_size (Paging_info sz fs) = sz"
| "info_size (Segmentation_info sz st en) = sz"

record event =
  timestamp :: real
  ev_process_id :: int
  event_type :: string
  details :: string

text \<open>
  The two ratios of the statistics are Python floats; they are kept as exact reals here,
  so the rounding of a float and the \<open>OverflowError\<close> of a true division whose quotient
  is outside the range of a float are not part of the model.
\<close>

record stats =
  total_memory :: int
  used_memory :: int
  free_memory :: int
  used_percentage :: real
  process_count :: nat
  page_faults :: int
  external_fragmentation :: real
  internal_fragmentation :: int

text \<open>
  The registry is a Python dictionary, which keeps insertion order; it is an association
  list updated with \<open>AList.update\<close> (replace in place, else append) and \<open>AList.delete\<close>.
\<close>

record manager =
  memory_size :: int
  page_size :: int
  memory :: "block list"
  page_table :: "frame list"
  allocated_processes :: "(int \<times> process_info) list"
  recent_events :: "event list"
  mstats :: stats

section \<open>Formatting integers as Python's \<open>str\<close> does\<close>

definition digit_char :: "nat \<Rightarrow> char" where
  "digit_char d = ''0123456789'' ! d"

function str_nat :: "nat \<Rightarrow> string" where
  "str_nat n = (if n < 10 then [digit_char n] else str_nat (n div 10) @ [digit_char (n mod 10)])"
  by pat_completeness auto
termination
  by (relation "measure id") auto

declare str_nat.simps [simp del]

definition str_int :: "int \<Rightarrow> string" where
  "str_int i = (if i < 0 then CHR ''-'' # str_nat (nat (- i)) else str_nat (nat i))"

section \<open>Construction\<close>

definition new_frame :: "int \<Rightarrow> int \<Rightarrow> frame" where
  "new_frame page_sz i =
     \<lparr>frame_id = i, frm_process_id = None, start_address = i * page_sz,
      end_address = (i + 1) * page_sz - 1\<rparr>"

definition initial_stats :: "int \<Rightarrow> stats" where
  "initial_stats mem_sz =
     \<lparr>total_memory = mem_sz, used_memory = 0, free_memory = mem_sz, used_percentage = 0,
      process_count = 0, page_faults = 0, external_fragmentation = 0,
      internal_fragmentation = 0\<rparr>"

text \<open>
  \<open>MemoryManager.__init__\<close>. The only way it can fail is the division
  \<open>memory_size // page_size\<close>; \<open>range\<close> of a negative number is empty.
\<close>

definition init_manager :: "int \<Rightarrow> int \<Rightarrow> py_error + manager" where
  "init_manager mem_sz page_sz =
     (if page_sz = 0 then Inl ZeroDivisionError
      else Inr
        \<lparr>memory_size = mem_sz, page_size = page_sz,
         memory = [\<lparr>blk_start = 0, blk_end = mem_sz - 1, blk_size = mem_sz,
                    blk_process_id = None\<rparr>],
         page_table = map (\<lambda>i. new_frame page_sz (int i)) [0..<nat (mem_sz div page_sz)],
         allocated_processes = [],
         recent_events = [],
         mstats = initial_stats mem_sz\<rparr>)"

text \<open>The engine of 100 bytes in pages of 10, as \<open>MemoryManager(100, 10)\<close> returns it.\<close>

definition example_manager :: manager where
  "example_manager =
     \<lparr>memory_size = 100, page_size = 10,
      memory = [\<lparr>blk_start = 0, blk_end = 99, blk_size = 100, blk_process_id = None\<rparr>],
      page_table = map (\<lambda>i. new_frame 10 (int i)) [0..<10],
      allocated_processes = [],
      recent_events = [],
      mstats = initial_stats 100\<rparr>"

section \<open>Event log and statistics\<close>

text \<open>
  \<open>_log_event\<close>: the event is appended, and the oldest one is popped once the log
  holds more than ten. The value of \<open>time.time()\<close> is the argument \<open>now\<close>.
\<close>

definition append_event :: "event list \<Rightarrow> event \<Rightarrow> event list" where
  "append_event evs e = (let evs' = evs @ [e] in if length evs' > 10 then tl evs' else evs')"

definition log_event :: "real \<Rightarrow> int \<Rightarrow> string \<Rightarrow> string \<Rightarrow> manager \<Rightarrow> manager" where
  "log_event now pid ty det s =
     s\<lparr>recent_events :=
         append_event (recent_events s)
           \<lparr>timestamp = now, ev_process_id = pid, event_type = ty, details = det\<rparr>\<rparr>"

text \<open>Python's \<open>max(xs, default=0)\<close>.\<close>

definition max_default :: "int list \<Rightarrow> int" where
  "max_default xs = (case xs of [] \<Rightarrow> 0 | x # r \<Rightarrow> fold max r x)"

text \<open>The contribution of one registry entry to \<open>internal_fragmentation\<close>.\<close>

fun info_fragmentation :: "int \<Rightarrow> process_info \<Rightarrow> int" where
  "info_fragmentation page_sz (Paging_info sz fs) = int (length fs) * page_sz - sz"
| "info_fragmentation page_sz (Segmentation_info sz st en) = 0"

definition update_stats :: "manager \<Rightarrow> manager" where
  "update_stats s =
     (let used = sum_list (map blk_size (filter (\<lambda>b. blk_process_id b \<noteq> None) (memory s)));
          free = memory_size s - used;
          free_blocks = filter (\<lambda>b. blk_process_id b = None) (memory s);
          largest_free_block = max_default (map blk_size free_blocks);
          ext = (if free > 0 then 1 - real_of_int largest_free_block / real_of_int free else 0);
          internal = fold (\<lambda>(pid, info) acc. acc + info_fragmentation (page_size s) info)
                       (allocated_processes s) 0
      in s\<lparr>mstats :=
           \<lparr>total_memory = memory_size s, used_memory = used, free_memory = free,
            used_percentage =
              (if memory_size s > 0 then real_of_int used / real_of_int (memory_size s) * 100
               else 0),
            process_count = length (allocated_processes s),
            page_faults = 0,
            external_fragmentation = ext,
            internal_fragmentation = internal\<rparr>\<rparr>)"

section \<open>Rebuilding and merging the block list\<close>

definition block_of_frame :: "frame \<Rightarrow> block" where
  "block_of_frame f =
     \<lparr>blk_start = start_address f, blk_end = end_address f,
      blk_size = end_address f - start_address f + 1, blk_process_id = frm_process_id f\<rparr>"

text \<open>
  The loop of \<open>_update_memory_from_page_table\<close>: \<open>cur\<close> is \<open>current_block\<close>,
  \<open>mem\<close> the list built so far.
\<close>

fun rebuild_loop :: "block option \<Rightarrow> block list \<Rightarrow> frame list \<Rightarrow> block list" where
  "rebuild_loop cur mem [] = (case cur of None \<Rightarrow> mem | Some c \<Rightarrow> mem @ [c])"
| "rebuild_loop cur mem (f # fs) =
     (case cur of
        None \<Rightarrow> rebuild_loop (Some (block_of_frame f)) mem fs
      | Some c \<Rightarrow>
          if blk_process_id c \<noteq> frm_process_id f
          then rebuild_loop (Some (block_of_frame f)) (mem @ [c]) fs
          else rebuild_loop
                 (Some (c\<lparr>blk_end := end_address f,
                          blk_size := end_address f - blk_start c + 1\<rparr>)) mem fs)"

definition update_memory_from_page_table :: "manager \<Rightarrow> manager" where
  "update_memory_from_page_table s =
     s\<lparr>memory := rebuild_loop None [] (sort_key frame_id (page_table s))\<rparr>"

text \<open>
  \<open>_merge_free_blocks\<close>: the index \<open>i\<close> of the loop is the head of the list; when the
  two blocks at \<open>i\<close> and \<open>i + 1\<close> are free the second is absorbed and \<open>i\<close> stays.
\<close>

fun merge_blocks :: "block list \<Rightarrow> block list" where
  "merge_blocks (a # b # r) =
     (if blk_process_id a = None \<and> blk_process_id b = None
      then merge_blocks (a\<lparr>blk_end := blk_end b, blk_size := blk_size a + blk_size b\<rparr> # r)
      else a # merge_blocks (b # r))"
| "merge_blocks bs = bs"

definition merge_free_blocks :: "manager \<Rightarrow> manager" where
  "merge_free_blocks s = s\<lparr>memory := merge_blocks (memory s)\<rparr>"

section \<open>Paging\<close>

text \<open>
  \<open>free_frames\<close> holds references to the dictionaries of \<open>page_table\<close>; a reference is
  the position of the frame in the table.
\<close>

definition free_frames :: "frame list \<Rightarrow> nat list" where
  "free_frames pt = filter (\<lambda>i. frm_process_id (pt ! i) = None) [0..<length pt]"

text \<open>Python's slice \<open>xs[:n]\<close>, where a negative \<open>n\<close> counts from the end.\<close>

definition py_take :: "int \<Rightarrow> 'a list \<Rightarrow> 'a list" where
  "py_take n xs = (if 0 \<le> n then take (nat n) xs else take (length xs - nat (- n)) xs)"

definition claim_frames :: "int \<Rightarrow> nat list \<Rightarrow> frame list \<Rightarrow> frame list" where
  "claim_frames pid idxs pt =
     fold (\<lambda>i t. t[i := (t ! i)\<lparr>frm_process_id := Some pid\<rparr>]) idxs pt"

definition allocate_process_paging ::
  "real \<Rightarrow> manager \<Rightarrow> int \<Rightarrow> int \<Rightarrow> py_error + bool \<times> manager" where
  "allocate_process_paging now s pid sz =
     (if page_size s = 0 then Inl ZeroDivisionError
      else
        let pages_needed = (sz + page_size s - 1) div page_size s;
            free = free_frames (page_table s)
        in if int (length free) < pages_needed
           then Inr (False,
                  log_event now pid ''Allocation Failed''
                    (''Not enough free frames. Needed '' @ str_int pages_needed @
                     '', available '' @ str_int (int (length free))) s)
           else
             let allocated = py_take pages_needed free;
                 pt = claim_frames pid allocated (page_table s);
                 s1 = update_memory_from_page_table (s\<lparr>page_table := pt\<rparr>);
                 s2 = s1\<lparr>allocated_processes :=
                        AList.update pid
                          (Paging_info sz (map (\<lambda>i. frame_id (pt ! i)) allocated))
                          (allocated_processes s1)\<rparr>
             in Inr (True,
                  log_event now pid ''Allocation''
                    (''Allocated '' @ str_int pages_needed @ '' pages for size '' @ str_int sz)
                    (update_stats s2)))"

section \<open>Segmentation\<close>

text \<open>The frames a block overlaps get the given owner (lines 91 to 95 and 126 to 130).\<close>

definition mark_frames :: "int \<Rightarrow> block \<Rightarrow> int option \<Rightarrow> frame list \<Rightarrow> frame list" where
  "mark_frames page_sz b ow pt =
     (let start_page = blk_start b div page_sz;
          end_page = blk_end b div page_sz
      in map (\<lambda>f. if start_page \<le> frame_id f \<and> frame_id f \<le> end_page
                   then f\<lparr>frm_process_id := ow\<rparr> else f) pt)"

text \<open>
  The search of \<open>_allocate_process_segmentation\<close>: the first free block that is large
  enough is claimed, whole or split; the result is the claimed block and the new list.
\<close>

fun first_fit :: "int \<Rightarrow> int \<Rightarrow> block list \<Rightarrow> (block \<times> block list) option" where
  "first_fit pid sz [] = None"
| "first_fit pid sz (b # bs) =
     (if blk_process_id b = None \<and> blk_size b \<ge> sz
      then
        (if blk_size b = sz
         then let c = b\<lparr>blk_process_id := Some pid\<rparr> in Some (c, c # bs)
         else
           let new_block = \<lparr>blk_start = blk_start b + sz, blk_end = blk_end b,
                            blk_size = blk_size b - sz, blk_process_id = None\<rparr>;
               c = b\<lparr>blk_end := blk_start b + sz - 1, blk_size := sz,
                     blk_process_id := Some pid\<rparr>
           in Some (c, c # new_block # bs))
      else map_option (\<lambda>(c, r). (c, b # r)) (first_fit pid sz bs))"

definition allocate_process_segmentation ::
  "real \<Rightarrow> manager \<Rightarrow> int \<Rightarrow> int \<Rightarrow> py_error + bool \<times> manager" where
  "allocate_process_segmentation now s pid sz =
     (case first_fit pid sz (memory s) of
        None \<Rightarrow>
          Inr (False,
            log_event now pid ''Allocation Failed''
              (''No suitable free block found for size '' @ str_int sz) s)
      | Some (c, mem) \<Rightarrow>
          if page_size s = 0 then Inl ZeroDivisionError
          else
            let s1 = s\<lparr>memory := mem,
                       page_table := mark_frames (page_size s) c (Some pid) (page_table s)\<rparr>;
                s2 = s1\<lparr>allocated_processes :=
                       AList.update pid (Segmentation_info sz (blk_start c) (blk_end c))
                         (allocated_processes s1)\<rparr>
            in Inr (True,
                 log_event now pid ''Allocation''
                   (''Allocated segment of size '' @ str_int sz @ '' at address '' @
                    str_int (blk_start c))
                   (update_stats s2)))"

definition allocate_process ::
  "real \<Rightarrow> manager \<Rightarrow> int \<Rightarrow> int \<Rightarrow> AllocationMethod \<Rightarrow> py_error + bool \<times> manager" where
  "allocate_process now s pid sz method =
     (if method = PAGING then allocate_process_paging now s pid sz
      else allocate_process_segmentation now s pid sz)"

section \<open>Deallocation\<close>

text \<open>The paging branch: every frame whose id is recorded for the process is released.\<close>

definition release_frames :: "int list \<Rightarrow> frame list \<Rightarrow> frame list" where
  "release_frames fids pt =
     fold (\<lambda>fid t. map (\<lambda>f. if frame_id f = fid then f\<lparr>frm_process_id := None\<rparr> else f) t)
       fids pt"

text \<open>
  The segmentation branch: the first block owned by the process is released, with the
  frames it overlaps, and the loop stops. The result is the released block, if any, and
  the new list.
\<close>

fun release_block :: "int \<Rightarrow> block list \<Rightarrow> (block \<times> block list) option" where
  "release_block pid [] = None"
| "release_block pid (b # bs) =
     (if blk_process_id b = Some pid
      then let c = b\<lparr>blk_process_id := None\<rparr> in Some (c, c # bs)
      else map_option (\<lambda>(c, r). (c, b # r)) (release_block pid bs))"

definition deallocate_process ::
  "real \<Rightarrow> manager \<Rightarrow> int \<Rightarrow> py_error + bool \<times> manager" where
  "deallocate_process now s pid =
     (case map_of (allocated_processes s) pid of
        None \<Rightarrow> Inr (False, s)
      | Some info \<Rightarrow>
          (let r =
             (case info of
                Paging_info sz fs \<Rightarrow>
                  Inr (update_memory_from_page_table
                         (s\<lparr>page_table := release_frames fs (page_table s)\<rparr>))
              | Segmentation_info sz st en \<Rightarrow>
                  (case release_block pid (memory s) of
                     None \<Rightarrow> Inr (merge_free_blocks s)
                   | Some (c, mem) \<Rightarrow>
                       if page_size s = 0 then Inl ZeroDivisionError
                       else Inr (merge_free_blocks
                              (s\<lparr>memory := mem,
                                 page_table := mark_frames (page_size s) c None (page_table s)\<rparr>))))
           in case r of
                Inl e \<Rightarrow> Inl e
              | Inr s1 \<Rightarrow>
                  Inr (True,
                    log_event now pid ''Deallocation'' ''Process removed from memory''
                      (update_stats
                         (s1\<lparr>allocated_processes := AList.delete pid (allocated_processes s1)\<rparr>)))))"

section \<open>Sequences of calls\<close>







section \<open>The registry against the owners of frames and blocks\<close>

text \<open>
  What a registry entry records, compared with the frame table and the block list: the
  frame ids of a paging entry are the ids of the frames owned by the process, and the
  range of a segmentation entry is the range of the one block owned by the process.
\<close>

fun entry_matches :: "manager \<Rightarrow> int \<Rightarrow> process_info \<Rightarrow> bool" where
  "entry_matches s pid (Paging_info sz fs) =
     (set fs = set (map frame_id (filter (\<lambda>f. frm_process_id f = Some pid) (page_table s))))"
| "entry_matches s pid (Segmentation_info sz st en) =
     (map (\<lambda>b. (blk_start b, blk_end b)) (filter (\<lambda>b. blk_process_id b = Some pid) (memory s)) =
        [(st, en)])"

text \<open>The invariant of the runs that allocate with paging only.\<close>

definition paging_consistent :: "manager \<Rightarrow> bool" where
  "paging_consistent s \<longleftrightarrow>
     page_size s \<noteq> 0 \<and> distinct (map frame_id (page_table s)) \<and>
     (\<forall>pid info. map_of (allocated_processes s) pid = Some info \<longrightarrow>
        (\<exists>sz fs. info = Paging_info sz fs) \<and> entry_matches s pid info) \<and>
     (\<forall>f \<in> set (page_table s). \<forall>p. frm_process_id f = Some p \<longrightarrow>
        map_of (allocated_processes s) p \<noteq> None)"

text \<open>The invariant of the runs that allocate with segmentation only.\<close>

definition segmentation_consistent :: "manager \<Rightarrow> bool" where
  "segmentation_consistent s \<longleftrightarrow>
     page_size s \<noteq> 0 \<and>
     (\<forall>pid info. map_of (allocated_processes s) pid = Some info \<longrightarrow>
        (\<exists>sz st en. info = Segmentation_info sz st en) \<and> entry_matches s pid info) \<and>
     (\<forall>b \<in> set (memory s). \<forall>p. blk_process_id b = Some p \<longrightarrow>
        map_of (allocated_processes s) p \<noteq> None)"

section \<open>Basic facts\<close>

lemma log_event_fields [simp]:
  "memory (log_event now pid ty det s) = memory s"
  "page_table (log_event now pid ty det s) = page_table s"
  "allocated_processes (log_event now pid ty det s) = allocated_processes s"
  "mstats (log_event now pid ty det s) = mstats s"
  "memory_size (log_event now pid ty det s) = memory_size s"
  "page_size (log_event now pid ty det s) = page_size s"
  by (simp_all add: log_event_def)

lemma log_event_events:
  "recent_events (log_event now pid ty det s) =
     append_event (recent_events s)
       \<lparr>timestamp = now, ev_process_id = pid, event_type = ty, details = det\<rparr>"
  by (simp add: log_event_def)

lemma free_frames_filter:
  "map ((!) pt) (free_frames pt) = filter (\<lambda>f. frm_process_id f = None) pt"
proof -
  have "filter (\<lambda>f. frm_process_id f = None) (map ((!) pt) [0..<length pt]) =
        map ((!) pt) (free_frames pt)"
    unfolding free_frames_def filter_map by (simp add: comp_def)
  then show ?thesis by (simp add: map_nth)
qed

lemma length_free_frames:
  "length (free_frames pt) = length (filter (\<lambda>f. frm_process_id f = None) pt)"
  using arg_cong [OF free_frames_filter, of length pt] by simp

lemma first_fit_None:
  "first_fit pid sz bs = None \<longleftrightarrow>
     \<not> (\<exists>b \<in> set bs. blk_process_id b = None \<and> sz \<le> blk_size b)"
  by (induction bs) (auto simp: Let_def)

lemma free_frames_bound: "i \<in> set (free_frames pt) \<Longrightarrow> i < length pt"
  by (auto simp: free_frames_def)

lemma claim_frames_length [simp]: "length (claim_frames pid idxs pt) = length pt"
  unfolding claim_frames_def by (induction idxs arbitrary: pt) auto

lemma claim_frames_nth:
  "i < length pt \<Longrightarrow>
   claim_frames pid idxs pt ! i =
     (if i \<in> set idxs then (pt ! i)\<lparr>frm_process_id := Some pid\<rparr> else pt ! i)"
  unfolding claim_frames_def
proof (induction idxs arbitrary: pt)
  case Nil
  then show ?case by simp
next
  case (Cons j js)
  then show ?case by (cases "i = j") (auto simp: nth_list_update)
qed

lemma fold_fragmentation:
  "fold (\<lambda>(pid, info) acc. acc + g info) xs a = a + sum_list (map (\<lambda>(pid, info). g info) xs)"
  for g :: "'b \<Rightarrow> int"
  by (induction xs arbitrary: a) (auto simp: case_prod_beta)

lemma first_fit_split:
  assumes "\<forall>x \<in> set pre. \<not> (blk_process_id x = None \<and> sz \<le> blk_size x)"
    and "blk_process_id b = None" and "sz \<le> blk_size b"
  shows "first_fit pid sz (pre @ b # post) =
     (if blk_size b = sz
      then Some (b\<lparr>blk_process_id := Some pid\<rparr>, pre @ b\<lparr>blk_process_id := Some pid\<rparr> # post)
      else Some (\<lparr>blk_start = blk_start b, blk_end = blk_start b + sz - 1, blk_size = sz,
                  blk_process_id = Some pid\<rparr>,
                 pre @ \<lparr>blk_start = blk_start b, blk_end = blk_start b + sz - 1, blk_size = sz,
                  blk_process_id = Some pid\<rparr> #
                 \<lparr>blk_start = blk_start b + sz, blk_end = blk_end b,
                  blk_size = blk_size b - sz, blk_process_id = None\<rparr> # post))"
  using assms by (induction pre) (auto simp: Let_def)

lemma release_block_split:
  assumes "\<forall>x \<in> set pre. blk_process_id x \<noteq> Some pid" and "blk_process_id b = Some pid"
  shows "release_block pid (pre @ b # post) =
           Some (b\<lparr>blk_process_id := None\<rparr>, pre @ b\<lparr>blk_process_id := None\<rparr> # post)"
  using assms by (induction pre) (auto simp: Let_def)

lemma neg_div_aux:
  assumes "0 < (b::int)"
  shows "(a + b - 1) div b = - ((- a) div b)"
proof -
  define q where "q = (a + b - 1) div b"
  define r where "r = (a + b - 1) mod b"
  have r: "0 \<le> r" "r < b" using assms by (simp_all add: r_def)
  have eq: "a + b - 1 = q * b + r" by (simp add: q_def r_def)
  have "- a = (- q) * b + (b - 1 - r)" using eq by (simp add: algebra_simps)
  moreover have "0 \<le> b - 1 - r" "b - 1 - r < b" using r by auto
  ultimately have "(- a) div b = - q"
    by (metis add.commute div_mult_self3 div_pos_pos_trivial add.right_neutral assms less_irrefl)
  then show ?thesis by (simp add: q_def)
qed

lemma ceil_div:
  assumes "0 < (b::int)"
  shows "(a + b - 1) div b = \<lceil>real_of_int a / real_of_int b\<rceil>"
  using neg_div_aux [OF assms, of a] by (simp add: ceiling_divide_eq_div)

lemma update_stats_fields [simp]:
  "memory (update_stats s) = memory s"
  "page_table (update_stats s) = page_table s"
  "allocated_processes (update_stats s) = allocated_processes s"
  "recent_events (update_stats s) = recent_events s"
  "memory_size (update_stats s) = memory_size s"
  "page_size (update_stats s) = page_size s"
  by (simp_all add: update_stats_def Let_def)

lemma update_stats_internal:
  "internal_fragmentation (mstats (update_stats s)) =
     (\<Sum>(pid, info)\<leftarrow>allocated_processes s. info_fragmentation (page_size s) info)"
  by (simp add: update_stats_def Let_def fold_fragmentation)

lemma rebuild_fields [simp]:
  "page_table (update_memory_from_page_table s) = page_table s"
  "allocated_processes (update_memory_from_page_table s) = allocated_processes s"
  "recent_events (update_memory_from_page_table s) = recent_events s"
  "memory_size (update_memory_from_page_table s) = memory_size s"
  "page_size (update_memory_from_page_table s) = page_size s"
  "mstats (update_memory_from_page_table s) = mstats s"
  by (simp_all add: update_memory_from_page_table_def)

lemma merge_fields [simp]:
  "page_table (merge_free_blocks s) = page_table s"
  "allocated_processes (merge_free_blocks s) = allocated_processes s"
  "recent_events (merge_free_blocks s) = recent_events s"
  "memory_size (merge_free_blocks s) = memory_size s"
  "page_size (merge_free_blocks s) = page_size s"
  "mstats (merge_free_blocks s) = mstats s"
  by (simp_all add: merge_free_blocks_def)

lemma py_take_subset: "set (py_take n xs) \<subseteq> set xs"
  unfolding py_take_def using set_take_subset [of _ xs] by (cases "0 \<le> n") simp_all

lemma py_take_map: "map f (py_take n xs) = py_take n (map f xs)"
  by (simp add: py_take_def take_map)

lemma claimed_ids_aux:
  assumes "\<And>i. i \<in> set idxs \<Longrightarrow> i < length pt"
  shows "map (\<lambda>i. frame_id (claim_frames pid idxs pt ! i)) idxs = map frame_id (map ((!) pt) idxs)"
proof -
  have "frame_id (claim_frames pid idxs pt ! i) = frame_id (pt ! i)" if "i \<in> set idxs" for i
    using assms [OF that] by (simp add: claim_frames_nth)
  then show ?thesis by (simp cong: map_cong)
qed

lemma py_take_free_bound:
  assumes "i \<in> set (py_take n (free_frames pt))"
  shows "i < length pt"
proof -
  from assms have "i \<in> set (free_frames pt)"
    using py_take_subset [of n "free_frames pt"] by (rule subsetD [rotated])
  then show ?thesis by (rule free_frames_bound)
qed

lemma claimed_ids:
  "map (\<lambda>i. frame_id (claim_frames pid (py_take n (free_frames pt)) pt ! i))
       (py_take n (free_frames pt)) =
   map frame_id (py_take n (filter (\<lambda>f. frm_process_id f = None) pt))"
proof -
  have "map (\<lambda>i. frame_id (claim_frames pid (py_take n (free_frames pt)) pt ! i))
       (py_take n (free_frames pt)) = map frame_id (map ((!) pt) (py_take n (free_frames pt)))"
    by (rule claimed_ids_aux) (rule py_take_free_bound)
  also have "map ((!) pt) (py_take n (free_frames pt)) = py_take n (map ((!) pt) (free_frames pt))"
    by (rule py_take_map)
  also have "map ((!) pt) (free_frames pt) = filter (\<lambda>f. frm_process_id f = None) pt"
    by (rule free_frames_filter)
  finally show ?thesis .
qed

text \<open>What a paging allocation returns, field by field.\<close>

lemma paging_failure:
  assumes "page_size s \<noteq> 0"
    and "int (length (free_frames (page_table s))) < (sz + page_size s - 1) div page_size s"
  shows "allocate_process_paging now s pid sz =
     Inr (False,
       log_event now pid ''Allocation Failed''
         (''Not enough free frames. Needed '' @
          str_int ((sz + page_size s - 1) div page_size s) @
          '', available '' @ str_int (int (length (free_frames (page_table s))))) s)"
  unfolding allocate_process_paging_def Let_def using assms by (simp only: if_False if_True)

lemma paging_success:
  assumes "page_size s \<noteq> 0"
    and "\<not> int (length (free_frames (page_table s))) < (sz + page_size s - 1) div page_size s"
  shows "\<exists>s'. allocate_process_paging now s pid sz = Inr (True, s') \<and>
     page_table s' =
       claim_frames pid
         (py_take ((sz + page_size s - 1) div page_size s) (free_frames (page_table s)))
         (page_table s) \<and>
     allocated_processes s' =
       AList.update pid
         (Paging_info sz
            (map frame_id
               (py_take ((sz + page_size s - 1) div page_size s)
                  (filter (\<lambda>f. frm_process_id f = None) (page_table s)))))
         (allocated_processes s) \<and>
     memory s' = rebuild_loop None [] (sort_key frame_id (page_table s')) \<and>
     page_size s' = page_size s \<and> memory_size s' = memory_size s \<and>
     mstats s' = mstats (update_stats s') \<and>
     (\<exists>det. recent_events s' =
        append_event (recent_events s)
          \<lparr>timestamp = now, ev_process_id = pid, event_type = ''Allocation'', details = det\<rparr>)"
  unfolding allocate_process_paging_def Let_def using assms
  apply (simp only: if_False)
  apply (rule exI, rule conjI, rule refl)
  apply (simp add: log_event_events claimed_ids update_memory_from_page_table_def
      update_stats_def Let_def)
  apply (rule exI, rule refl)
  done

lemma strict_ids_distinct:
  assumes "sorted_wrt (<) (map frame_id pt)"
  shows "distinct pt"
proof -
  have "distinct (map frame_id pt)"
    using assms strict_sorted_iff [of "map frame_id pt"] by blast
  then show ?thesis by (simp add: distinct_map)
qed

lemma claim_frames_by_value:
  assumes d: "distinct pt" and b: "\<And>i. i \<in> set idxs \<Longrightarrow> i < length pt"
  shows "claim_frames pid idxs pt =
           map (\<lambda>f. if f \<in> set (map ((!) pt) idxs) then f\<lparr>frm_process_id := Some pid\<rparr> else f) pt"
proof (rule nth_equalityI)
  show "length (claim_frames pid idxs pt) =
        length (map (\<lambda>f. if f \<in> set (map ((!) pt) idxs) then f\<lparr>frm_process_id := Some pid\<rparr> else f) pt)"
    by simp
next
  fix i assume "i < length (claim_frames pid idxs pt)"
  then have i: "i < length pt" by simp
  have "pt ! i \<in> set (map ((!) pt) idxs) \<longleftrightarrow> i \<in> set idxs"
  proof
    assume "pt ! i \<in> set (map ((!) pt) idxs)"
    then obtain j where j: "j \<in> set idxs" "pt ! j = pt ! i" by auto
    from b [OF j(1)] i d j(2) have "j = i" by (simp add: nth_eq_iff_index_eq)
    with j(1) show "i \<in> set idxs" by simp
  next
    assume "i \<in> set idxs"
    then show "pt ! i \<in> set (map ((!) pt) idxs)" by simp
  qed
  then show "claim_frames pid idxs pt ! i =
        map (\<lambda>f. if f \<in> set (map ((!) pt) idxs) then f\<lparr>frm_process_id := Some pid\<rparr> else f) pt ! i"
    using i by (simp add: claim_frames_nth)
qed

lemma pages_needed_pos:
  assumes "0 < (ps::int)" "0 < sz"
  shows "0 < (sz + ps - 1) div ps"
proof -
  have "ps \<le> sz + ps - 1" using assms by simp
  then show ?thesis using assms(1) by (simp add: pos_imp_zdiv_pos_iff)
qed

lemma take_free_frames:
  "map ((!) pt) (take k (free_frames pt)) = take k (filter (\<lambda>f. frm_process_id f = None) pt)"
  by (simp add: take_map [symmetric] free_frames_filter)

lemma first_in_order:
  assumes "sorted_wrt (<) (map frame_id pt)"
    and "f \<in> set (filter P pt)" and "f \<notin> set (take k (filter P pt))"
    and "c \<in> set (take k (filter P pt))"
  shows "frame_id c < frame_id f"
proof -
  let ?xs = "filter P pt"
  have s: "sorted_wrt (\<lambda>a b. frame_id a < frame_id b) ?xs"
    using assms(1) by (simp add: sorted_wrt_map sorted_wrt_filter)
  have "?xs = take k ?xs @ drop k ?xs" by simp
  with assms(2,3) have "f \<in> set (drop k ?xs)"
    by (metis Un_iff set_append)
  moreover have "sorted_wrt (\<lambda>a b. frame_id a < frame_id b) (take k ?xs @ drop k ?xs)"
    using s by simp
  ultimately show ?thesis using assms(4) unfolding sorted_wrt_append by blast
qed

lemma map_of_update_same: "map_of (AList.update k v al) k = Some v"
  by (simp add: update_conv')

text \<open>What a segmentation allocation returns, field by field.\<close>

lemma segmentation_failure:
  assumes "first_fit pid sz (memory s) = None"
  shows "allocate_process_segmentation now s pid sz =
     Inr (False,
       log_event now pid ''Allocation Failed''
         (''No suitable free block found for size '' @ str_int sz) s)"
  unfolding allocate_process_segmentation_def using assms by (simp only: option.case)

lemma segmentation_success:
  assumes "first_fit pid sz (memory s) = Some (c, mem)" and "page_size s \<noteq> 0"
  shows "\<exists>s'. allocate_process_segmentation now s pid sz = Inr (True, s') \<and>
     memory s' = mem \<and>
     page_table s' = mark_frames (page_size s) c (Some pid) (page_table s) \<and>
     allocated_processes s' =
       AList.update pid (Segmentation_info sz (blk_start c) (blk_end c))
         (allocated_processes s) \<and>
     page_size s' = page_size s \<and> memory_size s' = memory_size s \<and>
     mstats s' = mstats (update_stats s') \<and>
     (\<exists>det. recent_events s' =
        append_event (recent_events s)
          \<lparr>timestamp = now, ev_process_id = pid, event_type = ''Allocation'', details = det\<rparr>)"
  unfolding allocate_process_segmentation_def Let_def using assms
  apply (simp only: option.case prod.case if_False)
  apply (rule exI, rule conjI, rule refl)
  apply (simp add: log_event_events update_stats_def Let_def)
  apply (rule exI, rule refl)
  done



lemma deallocate_segmentation_found:
  assumes "map_of (allocated_processes s) pid = Some (Segmentation_info sz st en)"
    and "release_block pid (memory s) = Some (c, mem)" and "page_size s \<noteq> 0"
  shows "\<exists>s'. deallocate_process now s pid = Inr (True, s') \<and>
     page_table s' = mark_frames (page_size s) c None (page_table s) \<and>
     memory s' = merge_blocks mem \<and>
     allocated_processes s' = AList.delete pid (allocated_processes s) \<and>
     page_size s' = page_size s \<and> memory_size s' = memory_size s \<and>
     mstats s' = mstats (update_stats s') \<and>
     recent_events s' =
        append_event (recent_events s)
          \<lparr>timestamp = now, ev_process_id = pid, event_type = ''Deallocation'',
           details = ''Process removed from memory''\<rparr>"
  unfolding deallocate_process_def Let_def using assms
  apply (simp only: option.case process_info.case prod.case if_False sum.case)
  apply (rule exI, rule conjI, rule refl)
  apply (simp add: log_event_events merge_free_blocks_def update_stats_def Let_def)
  done


lemma first_fit_Some_owner:
  "first_fit pid sz bs = Some (c, mem) \<Longrightarrow> c \<in> set mem \<and> blk_process_id c = Some pid"
  by (induction bs arbitrary: mem) (auto simp: Let_def split: if_splits)

lemma paging_waste:
  assumes "0 < (ps::int)"
  shows "(sz + ps - 1) div ps * ps - sz = 0 \<longleftrightarrow> sz mod ps = 0"
proof
  assume "(sz + ps - 1) div ps * ps - sz = 0"
  then have "sz = (sz + ps - 1) div ps * ps" by simp
  then have "ps dvd sz" by (metis dvd_triv_right)
  then show "sz mod ps = 0" by simp
next
  assume "sz mod ps = 0"
  then obtain k where k: "sz = ps * k" by auto
  have e: "ps * k + ps - 1 = k * ps + (ps - 1)" by (simp add: algebra_simps)
  have "(ps * k + ps - 1) div ps = k"
    unfolding e using assms by (simp add: div_pos_pos_trivial)
  then show "(sz + ps - 1) div ps * ps - sz = 0" by (simp add: k)
qed

lemma append_event_explicit:
  "append_event evs e = (if length evs < 10 then evs else tl evs) @ [e]"
  by (cases evs) (auto simp: append_event_def Let_def)

lemma log_event_explicit:
  "log_event now pid ty det s =
     s\<lparr>recent_events :=
         (if length (recent_events s) < 10 then recent_events s else tl (recent_events s)) @
         [\<lparr>timestamp = now, ev_process_id = pid, event_type = ty, details = det\<rparr>]\<rparr>"
  by (simp only: log_event_def append_event_explicit)

lemma first_fit_Some_not_False:
  "first_fit pid sz (memory s) = Some r \<Longrightarrow>
     allocate_process_segmentation now s pid sz \<noteq> Inr (False, s')"
  by (cases r) (simp add: allocate_process_segmentation_def Let_def)

lemma paging_success_events:
  assumes "page_size s \<noteq> 0"
    and "\<not> int (length (free_frames (page_table s))) < (sz + page_size s - 1) div page_size s"
  shows "\<exists>s'. allocate_process_paging now s pid sz = Inr (True, s') \<and>
     recent_events s' =
       (if length (recent_events s) < 10 then recent_events s else tl (recent_events s)) @
       [\<lparr>timestamp = now, ev_process_id = pid, event_type = ''Allocation'',
         details = ''Allocated '' @ str_int ((sz + page_size s - 1) div page_size s) @
                   '' pages for size '' @ str_int sz\<rparr>]"
  unfolding allocate_process_paging_def Let_def using assms
  apply (simp only: if_False)
  apply (rule exI, rule conjI, rule refl)
  apply (simp add: log_event_events append_event_explicit update_memory_from_page_table_def
      update_stats_def Let_def)
  done

lemma le_div_iff_int:
  assumes "0 < (ps::int)"
  shows "k \<le> b div ps \<longleftrightarrow> k * ps \<le> b"
proof
  assume "k \<le> b div ps"
  then have "k * ps \<le> b div ps * ps" using assms by (simp add: mult_right_mono)
  also have "\<dots> \<le> b"
  proof -
    have "b = b div ps * ps + b mod ps" by simp
    moreover have "0 \<le> b mod ps" using assms by simp
    ultimately show ?thesis by linarith
  qed
  finally show "k * ps \<le> b" .
next
  assume "k * ps \<le> b"
  then have "k * ps div ps \<le> b div ps" using assms by (rule zdiv_mono1)
  then show "k \<le> b div ps" using assms by simp
qed

lemma div_le_iff_int:
  assumes "0 < (ps::int)"
  shows "b div ps \<le> k \<longleftrightarrow> b \<le> (k + 1) * ps - 1"
proof -
  have "b div ps \<le> k \<longleftrightarrow> \<not> (k + 1 \<le> b div ps)" by linarith
  also have "\<dots> \<longleftrightarrow> \<not> ((k + 1) * ps \<le> b)" by (simp only: le_div_iff_int [OF assms])
  also have "\<dots> \<longleftrightarrow> b \<le> (k + 1) * ps - 1" by linarith
  finally show ?thesis .
qed

lemma overlap_iff:
  assumes "0 < ps" and "start_address f = frame_id f * ps"
    and "end_address f = (frame_id f + 1) * ps - 1"
  shows "(blk_start b div ps \<le> frame_id f \<and> frame_id f \<le> blk_end b div ps) \<longleftrightarrow>
         (blk_start b \<le> end_address f \<and> start_address f \<le> blk_end b)"
  by (simp only: assms(2,3) div_le_iff_int [OF assms(1)] le_div_iff_int [OF assms(1)])

lemma mark_frames_overlap:
  assumes "0 < ps"
    and "\<forall>f \<in> set pt. start_address f = frame_id f * ps \<and>
                        end_address f = (frame_id f + 1) * ps - 1"
  shows "mark_frames ps b ow pt =
     map (\<lambda>f. if blk_start b \<le> end_address f \<and> start_address f \<le> blk_end b
               then f\<lparr>frm_process_id := ow\<rparr> else f) pt"
  unfolding mark_frames_def Let_def
proof (rule map_cong [OF refl])
  fix f assume f: "f \<in> set pt"
  from assms(2) f have g: "start_address f = frame_id f * ps"
    "end_address f = (frame_id f + 1) * ps - 1" by auto
  show "(if blk_start b div ps \<le> frame_id f \<and> frame_id f \<le> blk_end b div ps
         then f\<lparr>frm_process_id := ow\<rparr> else f) =
        (if blk_start b \<le> end_address f \<and> start_address f \<le> blk_end b
         then f\<lparr>frm_process_id := ow\<rparr> else f)"
    by (simp only: overlap_iff [OF assms(1) g])
qed

lemma mark_frames_owner:
  assumes "\<And>f. P (f\<lparr>frm_process_id := ow\<rparr>) = P f"
  shows "\<forall>f \<in> set (map (\<lambda>f. if P f then f\<lparr>frm_process_id := ow\<rparr> else f) pt).
      P f \<longrightarrow> frm_process_id f = ow"
  using assms by auto
















lemma entry_matches_log_event [simp]:
  "entry_matches (log_event now pid ty det s) q info = entry_matches s q info"
  by (cases info) simp_all

lemma paging_consistent_log_event [simp]:
  "paging_consistent (log_event now pid ty det s) = paging_consistent s"
  by (simp add: paging_consistent_def)

lemma segmentation_consistent_log_event [simp]:
  "segmentation_consistent (log_event now pid ty det s) = segmentation_consistent s"
  by (simp add: segmentation_consistent_def)












lemma owner_in_filter:
  "(\<exists>b \<in> set bs. blk_process_id b = Some p) \<longleftrightarrow>
     filter (\<lambda>b. blk_process_id b = Some p) bs \<noteq> []"
  by (simp add: filter_empty_conv)






section \<open>Construction (C9)\<close>

text \<open>
  C9, as the code has it. The constructor checks nothing: it raises only for a page size
  of zero (the division that counts the frames), and returns an engine for every other
  pair of arguments, whatever their sign and whether or not the page size divides the
  memory size. The engine it returns holds one free block from 0 to
  \<open>memory_size - 1\<close> and \<open>memory_size // page_size\<close> free frames, frame \<open>i\<close>
  covering \<open>i * page_size\<close> to \<open>(i + 1) * page_size - 1\<close>.
\<close>

theorem init_manager_unchecked:
  "(page_sz = 0 \<longrightarrow> init_manager mem_sz page_sz = Inl ZeroDivisionError) \<and>
   (page_sz \<noteq> 0 \<longrightarrow>
      (\<exists>s. init_manager mem_sz page_sz = Inr s \<and>
           memory_size s = mem_sz \<and> page_size s = page_sz \<and>
           memory s = [\<lparr>blk_start = 0, blk_end = mem_sz - 1, blk_size = mem_sz,
                        blk_process_id = None\<rparr>] \<and>
           length (page_table s) = nat (mem_sz div page_sz) \<and>
           (\<forall>i < nat (mem_sz div page_sz).
              page_table s ! i =
                \<lparr>frame_id = int i, frm_process_id = None, start_address = int i * page_sz,
                 end_address = (int i + 1) * page_sz - 1\<rparr>) \<and>
           allocated_processes s = [] \<and> recent_events s = []))"
  by (simp add: init_manager_def new_frame_def)

theorem init_manager_unchecked_witness:
  "(16::int) \<noteq> 0 \<and>
      (\<exists>s. init_manager 256 16 = Inr s \<and>
           memory_size s = 256 \<and> page_size s = 16 \<and>
           memory s = [\<lparr>blk_start = 0, blk_end = 255, blk_size = 256,
                        blk_process_id = None\<rparr>] \<and>
           length (page_table s) = 16 \<and>
           allocated_processes s = [] \<and> recent_events s = [])"
  using init_manager_unchecked [of 16 256] by auto

text \<open>
  C9 as stated fails: a memory size that is no multiple of the page size, a negative
  memory size and a negative page size all yield an engine.
\<close>

theorem init_manager_invalid_counterexample:
  "\<not> isl (init_manager 100 30) \<and> \<not> isl (init_manager (- 5) 10) \<and>
   \<not> isl (init_manager 100 (- 10))"
  by (simp add: init_manager_def)

section \<open>Validation and failed allocations (C1)\<close>

text \<open>
  C1, as the code has it. \<open>allocate_process\<close> checks neither the size nor the process
  id. With a page size other than \<open>0\<close>, a call returns \<open>False\<close> exactly when the
  strategy lacks room: for paging when the number of free frames is below
  \<open>(size + page_size - 1) // page_size\<close>, for segmentation when no free block has a size
  of at least \<open>size\<close>. A size that is not positive or a process id that is already
  registered is no reason for failure. A call that returns \<open>False\<close> leaves the engine
  as it was but for the event log, whose last entry is the new event of type
  \<open>Allocation Failed\<close>, after the entries that were there (without the oldest one if
  there were already ten).
\<close>

theorem allocate_process_unchecked:
  fixes s :: manager and sz :: int and m :: AllocationMethod
  assumes "page_size s \<noteq> 0"
  defines "free \<equiv> filter (\<lambda>f. frm_process_id f = None) (page_table s)"
    and "n \<equiv> (sz + page_size s - 1) div page_size s"
  defines "short \<equiv>
     (if m = PAGING then int (length free) < n
      else \<not> (\<exists>b \<in> set (memory s). blk_process_id b = None \<and> sz \<le> blk_size b))"
  shows "(short \<longrightarrow>
            allocate_process now s pid sz m =
              Inr (False,
                s\<lparr>recent_events :=
                    (if length (recent_events s) < 10 then recent_events s
                     else tl (recent_events s)) @
                    [\<lparr>timestamp = now, ev_process_id = pid,
                      event_type = ''Allocation Failed'',
                      details =
                        (if m = PAGING
                         then ''Not enough free frames. Needed '' @ str_int n @
                              '', available '' @ str_int (int (length free))
                         else ''No suitable free block found for size '' @ str_int sz)\<rparr>]\<rparr>)) \<and>
         (\<not> short \<longrightarrow> \<not> (\<exists>s'. allocate_process now s pid sz m = Inr (False, s')))"
proof (cases m)
  case PAGING
  show ?thesis
  proof (cases "int (length free) < n")
    case True
    then have sh: "int (length (free_frames (page_table s))) < (sz + page_size s - 1) div page_size s"
      by (simp add: n_def free_def length_free_frames)
    show ?thesis
      using True PAGING
      by (simp add: short_def allocate_process_def paging_failure [OF assms(1) sh]
          log_event_explicit n_def free_def length_free_frames)
  next
    case False
    then have en: "\<not> int (length (free_frames (page_table s))) < (sz + page_size s - 1) div page_size s"
      by (simp add: n_def free_def length_free_frames)
    from paging_success [OF assms(1) en, of now pid]
    obtain s1 where "allocate_process_paging now s pid sz = Inr (True, s1)" by blast
    then show ?thesis
      using False PAGING by (simp add: short_def allocate_process_def)
  qed
next
  case SEGMENTATION
  show ?thesis
  proof (cases "first_fit pid sz (memory s)")
    case None
    then have sh: "\<not> (\<exists>b \<in> set (memory s). blk_process_id b = None \<and> sz \<le> blk_size b)"
      using first_fit_None [of pid sz "memory s"] by auto
    show ?thesis
      using sh SEGMENTATION
      by (simp add: short_def allocate_process_def segmentation_failure [OF None]
          log_event_explicit)
  next
    case (Some r)
    then have "\<exists>b \<in> set (memory s). blk_process_id b = None \<and> sz \<le> blk_size b"
      using first_fit_None [of pid sz "memory s"] by auto
    then show ?thesis
      using SEGMENTATION first_fit_Some_not_False [OF Some]
      by (simp add: short_def allocate_process_def)
  qed
qed

theorem allocate_process_unchecked_witness:
  "page_size example_manager \<noteq> 0 \<and>
   allocate_process 0 example_manager 1 400 PAGING =
     Inr (False,
       example_manager\<lparr>recent_events :=
         [\<lparr>timestamp = 0, ev_process_id = 1, event_type = ''Allocation Failed'',
           details = ''Not enough free frames. Needed 40, available 10''\<rparr>]\<rparr>) \<and>
   allocate_process 0 example_manager 1 400 SEGMENTATION =
     Inr (False,
       example_manager\<lparr>recent_events :=
         [\<lparr>timestamp = 0, ev_process_id = 1, event_type = ''Allocation Failed'',
           details = ''No suitable free block found for size 400''\<rparr>]\<rparr>) \<and>
   \<not> (\<exists>s'. allocate_process 0 example_manager 1 (- 5) PAGING = Inr (False, s')) \<and>
   \<not> (\<exists>s'. allocate_process 0 example_manager 1 0 SEGMENTATION = Inr (False, s'))"
proof -
  have h: "page_size example_manager \<noteq> 0"
    by (simp add: example_manager_def)
  have len: "int (length (filter (\<lambda>f. frm_process_id f = None) (page_table example_manager))) = 10"
    by code_simp
  have n: "(400 + page_size example_manager - 1) div page_size example_manager = 40"
    by (simp add: example_manager_def)
  have n': "(- 5 + page_size example_manager - 1) div page_size example_manager = 0"
    by (simp add: example_manager_def)
  have s40: "str_int 40 = ''40''" by code_simp
  have s10: "str_int 10 = ''10''" by code_simp
  have s400: "str_int 400 = ''400''" by code_simp
  have ev: "recent_events example_manager = []" by (simp add: example_manager_def)
  have mem: "memory example_manager =
      [\<lparr>blk_start = 0, blk_end = 99, blk_size = 100, blk_process_id = None\<rparr>]"
    by (simp add: example_manager_def)
  have a: "allocate_process 0 example_manager 1 400 PAGING =
     Inr (False,
       example_manager\<lparr>recent_events :=
         [\<lparr>timestamp = 0, ev_process_id = 1, event_type = ''Allocation Failed'',
           details = ''Not enough free frames. Needed 40, available 10''\<rparr>]\<rparr>)"
    using allocate_process_unchecked [OF h, of PAGING 400 0 1]
    unfolding len n s40 s10 ev by simp
  have b: "allocate_process 0 example_manager 1 400 SEGMENTATION =
     Inr (False,
       example_manager\<lparr>recent_events :=
         [\<lparr>timestamp = 0, ev_process_id = 1, event_type = ''Allocation Failed'',
           details = ''No suitable free block found for size 400''\<rparr>]\<rparr>)"
    using allocate_process_unchecked [OF h, of SEGMENTATION 400 0 1]
    unfolding s400 ev mem by simp
  have c: "\<not> (\<exists>s'. allocate_process 0 example_manager 1 (- 5) PAGING = Inr (False, s'))"
    using allocate_process_unchecked [OF h, of PAGING "- 5" 0 1]
    unfolding len n' by simp
  have d: "\<not> (\<exists>s'. allocate_process 0 example_manager 1 0 SEGMENTATION = Inr (False, s'))"
    using allocate_process_unchecked [OF h, of SEGMENTATION 0 0 1]
    unfolding mem by simp
  from h a b c d show ?thesis by (intro conjI)
qed

text \<open>
  C1 as stated fails. On an engine of 256 bytes in pages of 16, after
  \<open>allocate(1, 50, Paging)\<close> the call \<open>allocate(1, 10, Paging)\<close> succeeds: it
  claims a fifth frame and overwrites the registry entry of process 1. A request of
  size 0 succeeds as well.
\<close>

theorem allocate_duplicate_counterexample:
  "(case init_manager 256 16 of Inl e \<Rightarrow> False
    | Inr s0 \<Rightarrow>
       (case allocate_process 0 s0 1 50 PAGING of Inl e \<Rightarrow> False
        | Inr (ok1, s1) \<Rightarrow> ok1 \<and>
           (case allocate_process 0 s1 1 10 PAGING of Inl e \<Rightarrow> False
            | Inr (ok2, s2) \<Rightarrow> ok2 \<and>
                map frm_process_id (page_table s1) = replicate 4 (Some 1) @ replicate 12 None \<and>
                map frm_process_id (page_table s2) = replicate 5 (Some 1) @ replicate 11 None \<and>
                allocated_processes s1 = [(1, Paging_info 50 [0, 1, 2, 3])] \<and>
                allocated_processes s2 = [(1, Paging_info 10 [4])])) \<and>
       (case allocate_process 0 s0 1 0 SEGMENTATION of Inl e \<Rightarrow> False
        | Inr (ok3, s3) \<Rightarrow> ok3 \<and> allocated_processes s3 = [(1, Segmentation_info 0 0 (- 1))]))"
  by code_simp

section \<open>The event log (C6)\<close>

text \<open>
  C6 at a process id that is not registered: on a new engine of 256 bytes in pages of 16,
  \<open>deallocate_process(7)\<close> returns \<open>False\<close> and the engine, its event log included,
  is what it was. The failing paths of \<open>allocate_process\<close> do log an event.
\<close>

theorem deallocate_unknown_logs_nothing:
  "(case init_manager 256 16 of Inl e \<Rightarrow> False
    | Inr s \<Rightarrow> deallocate_process 0 s 7 = Inr (False, s) \<and> recent_events s = [])"
  by (simp add: init_manager_def deallocate_process_def)

section \<open>Paging allocation (C4)\<close>

text \<open>
  C4. For a positive size on an engine with a positive page size whose frame table is in
  increasing frame-id order (as the constructor builds it), \<open>allocate_process\<close> with
  \<open>PAGING\<close> needs \<open>ceil(size / page_size)\<close> pages. With fewer free frames it returns
  \<open>False\<close>, changes neither blocks, frames, registry nor statistics, and the event
  log ends with one new event that gives the number needed and the number available.
  Otherwise it returns \<open>True\<close>, gives the process exactly the first \<open>pages_needed\<close>
  free frames of the table, which are the free frames with the smallest ids (contiguous
  or not), registers their ids in that order, and the event log ends with one new event
  that gives the number of pages. In both cases the entries before the new event are the
  entries of the old log, without the oldest one if there were already ten.
\<close>

theorem paging_allocation:
  assumes ps: "0 < page_size s" and sz: "0 < sz"
    and ids: "sorted_wrt (<) (map frame_id (page_table s))"
  defines "n \<equiv> (sz + page_size s - 1) div page_size s"
    and "free \<equiv> filter (\<lambda>f. frm_process_id f = None) (page_table s)"
  shows "n = \<lceil>real_of_int sz / real_of_int (page_size s)\<rceil> \<and>
    (int (length free) < n \<longrightarrow>
       (\<exists>s'. allocate_process now s pid sz PAGING = Inr (False, s') \<and>
          memory s' = memory s \<and> page_table s' = page_table s \<and>
          allocated_processes s' = allocated_processes s \<and> mstats s' = mstats s \<and>
          recent_events s' =
            (if length (recent_events s) < 10 then recent_events s
             else tl (recent_events s)) @
            [\<lparr>timestamp = now, ev_process_id = pid, event_type = ''Allocation Failed'',
              details = ''Not enough free frames. Needed '' @ str_int n @
                        '', available '' @ str_int (int (length free))\<rparr>])) \<and>
    (n \<le> int (length free) \<longrightarrow>
       (\<exists>s'. allocate_process now s pid sz PAGING = Inr (True, s') \<and>
          page_table s' =
            map (\<lambda>f. if f \<in> set (take (nat n) free)
                      then f\<lparr>frm_process_id := Some pid\<rparr> else f) (page_table s) \<and>
          map_of (allocated_processes s') pid =
            Some (Paging_info sz (map frame_id (take (nat n) free))) \<and>
          length (take (nat n) free) = nat n \<and>
          sorted_wrt (<) (map frame_id (take (nat n) free)) \<and>
          (\<forall>f \<in> set free. f \<notin> set (take (nat n) free) \<longrightarrow>
             (\<forall>c \<in> set (take (nat n) free). frame_id c < frame_id f)) \<and>
          recent_events s' =
            (if length (recent_events s) < 10 then recent_events s
             else tl (recent_events s)) @
            [\<lparr>timestamp = now, ev_process_id = pid, event_type = ''Allocation'',
              details = ''Allocated '' @ str_int n @ '' pages for size '' @
                        str_int sz\<rparr>]))"
proof (intro conjI impI)
  show "n = \<lceil>real_of_int sz / real_of_int (page_size s)\<rceil>"
    unfolding n_def by (rule ceil_div [OF ps])
next
  assume short: "int (length free) < n"
  have ps0: "page_size s \<noteq> 0" using ps by simp
  have short': "int (length (free_frames (page_table s))) < (sz + page_size s - 1) div page_size s"
    using short by (simp add: n_def free_def length_free_frames)
  show "\<exists>s'. allocate_process now s pid sz PAGING = Inr (False, s') \<and>
          memory s' = memory s \<and> page_table s' = page_table s \<and>
          allocated_processes s' = allocated_processes s \<and> mstats s' = mstats s \<and>
          recent_events s' =
            (if length (recent_events s) < 10 then recent_events s
             else tl (recent_events s)) @
            [\<lparr>timestamp = now, ev_process_id = pid, event_type = ''Allocation Failed'',
              details = ''Not enough free frames. Needed '' @ str_int n @
                        '', available '' @ str_int (int (length free))\<rparr>]"
    unfolding allocate_process_def paging_failure [OF ps0 short']
    by (simp add: log_event_events append_event_explicit n_def free_def length_free_frames)
next
  assume enough: "n \<le> int (length free)"
  have ps0: "page_size s \<noteq> 0" using ps by simp
  have npos: "0 < n" unfolding n_def by (rule pages_needed_pos [OF ps sz])
  have enough': "\<not> int (length (free_frames (page_table s))) < (sz + page_size s - 1) div page_size s"
    using enough by (simp add: n_def free_def length_free_frames)
  have take_eq: "py_take n xs = take (nat n) xs" for xs :: "'a list"
    using npos by (simp add: py_take_def)
  obtain s' where r: "allocate_process_paging now s pid sz = Inr (True, s')"
    and pt: "page_table s' = claim_frames pid (py_take n (free_frames (page_table s))) (page_table s)"
    and reg: "allocated_processes s' =
       AList.update pid (Paging_info sz (map frame_id (py_take n free))) (allocated_processes s)"
    using paging_success [OF ps0 enough', of now pid] unfolding n_def free_def by blast
  have ev: "recent_events s' =
      (if length (recent_events s) < 10 then recent_events s else tl (recent_events s)) @
      [\<lparr>timestamp = now, ev_process_id = pid, event_type = ''Allocation'',
        details = ''Allocated '' @ str_int n @ '' pages for size '' @ str_int sz\<rparr>]"
    using paging_success_events [OF ps0 enough', of now pid] r unfolding n_def by auto
  have d: "distinct (page_table s)" by (rule strict_ids_distinct [OF ids])
  have b: "\<And>i. i \<in> set (take (nat n) (free_frames (page_table s))) \<Longrightarrow> i < length (page_table s)"
    using py_take_free_bound [of _ n "page_table s"] by (simp add: take_eq)
  have pt': "page_table s' =
      map (\<lambda>f. if f \<in> set (take (nat n) free)
                then f\<lparr>frm_process_id := Some pid\<rparr> else f) (page_table s)"
  proof -
    have "claim_frames pid (take (nat n) (free_frames (page_table s))) (page_table s) =
        map (\<lambda>f. if f \<in> set (map ((!) (page_table s)) (take (nat n) (free_frames (page_table s))))
                  then f\<lparr>frm_process_id := Some pid\<rparr> else f) (page_table s)"
      using d b by (rule claim_frames_by_value)
    then show ?thesis
      unfolding pt take_eq take_free_frames free_def .
  qed
  have len: "length (take (nat n) free) = nat n"
    using enough npos by simp
  have srt: "sorted_wrt (<) (map frame_id (take (nat n) free))"
    using ids unfolding free_def
    by (simp add: sorted_wrt_map sorted_wrt_filter sorted_wrt_take)
  have first: "\<forall>f \<in> set free. f \<notin> set (take (nat n) free) \<longrightarrow>
             (\<forall>c \<in> set (take (nat n) free). frame_id c < frame_id f)"
    unfolding free_def using first_in_order [OF ids] by blast
  show "\<exists>s'. allocate_process now s pid sz PAGING = Inr (True, s') \<and>
          page_table s' =
            map (\<lambda>f. if f \<in> set (take (nat n) free)
                      then f\<lparr>frm_process_id := Some pid\<rparr> else f) (page_table s) \<and>
          map_of (allocated_processes s') pid =
            Some (Paging_info sz (map frame_id (take (nat n) free))) \<and>
          length (take (nat n) free) = nat n \<and>
          sorted_wrt (<) (map frame_id (take (nat n) free)) \<and>
          (\<forall>f \<in> set free. f \<notin> set (take (nat n) free) \<longrightarrow>
             (\<forall>c \<in> set (take (nat n) free). frame_id c < frame_id f)) \<and>
          recent_events s' =
            (if length (recent_events s) < 10 then recent_events s
             else tl (recent_events s)) @
            [\<lparr>timestamp = now, ev_process_id = pid, event_type = ''Allocation'',
              details = ''Allocated '' @ str_int n @ '' pages for size '' @
                        str_int sz\<rparr>]"
  proof (intro exI conjI)
    show "allocate_process now s pid sz PAGING = Inr (True, s')"
      by (simp add: allocate_process_def r)
    show "map_of (allocated_processes s') pid =
            Some (Paging_info sz (map frame_id (take (nat n) free)))"
      unfolding reg take_eq by (rule map_of_update_same)
  qed (rule pt' len srt first ev)+
qed

theorem paging_allocation_witness:
  "0 < page_size example_manager \<and> (0::int) < 25 \<and>
   sorted_wrt (<) (map frame_id (page_table example_manager)) \<and>
   (\<exists>s'. allocate_process 0 example_manager 1 25 PAGING = Inr (True, s') \<and>
      map_of (allocated_processes s') 1 = Some (Paging_info 25 [0, 1, 2]) \<and>
      recent_events s' =
        [\<lparr>timestamp = 0, ev_process_id = 1, event_type = ''Allocation'',
          details = ''Allocated 3 pages for size 25''\<rparr>]) \<and>
   (\<exists>s'. allocate_process 0 example_manager 1 125 PAGING = Inr (False, s') \<and>
      memory s' = memory example_manager \<and> page_table s' = page_table example_manager \<and>
      allocated_processes s' = allocated_processes example_manager \<and>
      mstats s' = mstats example_manager \<and>
      recent_events s' =
        [\<lparr>timestamp = 0, ev_process_id = 1, event_type = ''Allocation Failed'',
          details = ''Not enough free frames. Needed 13, available 10''\<rparr>])"
proof -
  have h1: "0 < page_size example_manager" by (simp add: example_manager_def)
  have h2: "(0::int) < 25" by simp
  have h2': "(0::int) < 125" by simp
  have h3: "sorted_wrt (<) (map frame_id (page_table example_manager))" by code_simp
  have n: "(25 + page_size example_manager - 1) div page_size example_manager = 3"
    by (simp add: example_manager_def)
  have n': "(125 + page_size example_manager - 1) div page_size example_manager = 13"
    by (simp add: example_manager_def)
  have len: "int (length (filter (\<lambda>f. frm_process_id f = None) (page_table example_manager))) = 10"
    by code_simp
  have ids: "map frame_id (take (nat 3) (filter (\<lambda>f. frm_process_id f = None)
               (page_table example_manager))) = [0, 1, 2]"
    by code_simp
  have ev: "recent_events example_manager = []" by (simp add: example_manager_def)
  have s3: "str_int 3 = ''3''" by code_simp
  have s25: "str_int 25 = ''25''" by code_simp
  have s13: "str_int 13 = ''13''" by code_simp
  have s10: "str_int 10 = ''10''" by code_simp
  have a: "\<exists>s'. allocate_process 0 example_manager 1 25 PAGING = Inr (True, s') \<and>
      map_of (allocated_processes s') 1 = Some (Paging_info 25 [0, 1, 2]) \<and>
      recent_events s' =
        [\<lparr>timestamp = 0, ev_process_id = 1, event_type = ''Allocation'',
          details = ''Allocated 3 pages for size 25''\<rparr>]"
    using paging_allocation [OF h1 h2 h3, of 0 1] unfolding n len ids ev s3 s25
    by simp blast
  have b: "\<exists>s'. allocate_process 0 example_manager 1 125 PAGING = Inr (False, s') \<and>
      memory s' = memory example_manager \<and> page_table s' = page_table example_manager \<and>
      allocated_processes s' = allocated_processes example_manager \<and>
      mstats s' = mstats example_manager \<and>
      recent_events s' =
        [\<lparr>timestamp = 0, ev_process_id = 1, event_type = ''Allocation Failed'',
          details = ''Not enough free frames. Needed 13, available 10''\<rparr>]"
    using paging_allocation [OF h1 h2' h3, of 0 1] unfolding n' len ev s13 s10
    by simp
  from h1 h2 h3 a b show ?thesis by (intro conjI)
qed

section \<open>Segmentation allocation (C5)\<close>

text \<open>
  C5. \<open>allocate_process\<close> with \<open>SEGMENTATION\<close> takes the first block, in the order of
  the block list, that is free and at least as large as the request. When there is none
  it returns \<open>False\<close> and leaves blocks, frames, registry and statistics as they were.
  When the block has exactly the requested size it is claimed whole; otherwise it is
  replaced by two blocks, the claimed prefix of exactly the requested size at the
  original start and, right after it, a free block that ends at the original end.
\<close>

theorem segmentation_allocation:
  assumes ps: "page_size s \<noteq> 0"
  shows
   "((\<forall>b \<in> set (memory s). \<not> (blk_process_id b = None \<and> sz \<le> blk_size b)) \<longrightarrow>
       (\<exists>s'. allocate_process now s pid sz SEGMENTATION = Inr (False, s') \<and>
          memory s' = memory s \<and> page_table s' = page_table s \<and>
          allocated_processes s' = allocated_processes s \<and> mstats s' = mstats s)) \<and>
    (\<forall>pre b post.
       memory s = pre @ b # post \<and>
       (\<forall>x \<in> set pre. \<not> (blk_process_id x = None \<and> sz \<le> blk_size x)) \<and>
       blk_process_id b = None \<and> sz \<le> blk_size b \<longrightarrow>
       (\<exists>s'. allocate_process now s pid sz SEGMENTATION = Inr (True, s') \<and>
          memory s' =
            pre @
            (if blk_size b = sz then [b\<lparr>blk_process_id := Some pid\<rparr>]
             else [\<lparr>blk_start = blk_start b, blk_end = blk_start b + sz - 1, blk_size = sz,
                     blk_process_id = Some pid\<rparr>,
                   \<lparr>blk_start = blk_start b + sz, blk_end = blk_end b,
                     blk_size = blk_size b - sz, blk_process_id = None\<rparr>]) @
            post))"
proof (intro conjI allI impI)
  assume "\<forall>b \<in> set (memory s). \<not> (blk_process_id b = None \<and> sz \<le> blk_size b)"
  then have "first_fit pid sz (memory s) = None"
    by (simp add: first_fit_None)
  then show "\<exists>s'. allocate_process now s pid sz SEGMENTATION = Inr (False, s') \<and>
          memory s' = memory s \<and> page_table s' = page_table s \<and>
          allocated_processes s' = allocated_processes s \<and> mstats s' = mstats s"
    by (simp add: allocate_process_def segmentation_failure)
next
  fix pre b post
  assume a: "memory s = pre @ b # post \<and>
       (\<forall>x \<in> set pre. \<not> (blk_process_id x = None \<and> sz \<le> blk_size x)) \<and>
       blk_process_id b = None \<and> sz \<le> blk_size b"
  then have m: "memory s = pre @ b # post"
    and p: "\<forall>x \<in> set pre. \<not> (blk_process_id x = None \<and> sz \<le> blk_size x)"
    and f: "blk_process_id b = None" and g: "sz \<le> blk_size b"
    by simp_all
  let ?new = "pre @
            (if blk_size b = sz then [b\<lparr>blk_process_id := Some pid\<rparr>]
             else [\<lparr>blk_start = blk_start b, blk_end = blk_start b + sz - 1, blk_size = sz,
                     blk_process_id = Some pid\<rparr>,
                   \<lparr>blk_start = blk_start b + sz, blk_end = blk_end b,
                     blk_size = blk_size b - sz, blk_process_id = None\<rparr>]) @
            post"
  have "\<exists>c. first_fit pid sz (memory s) = Some (c, ?new)"
    unfolding m first_fit_split [OF p f g] by simp
  then obtain c where c: "first_fit pid sz (memory s) = Some (c, ?new)" ..
  from segmentation_success [OF c ps, of now]
  show "\<exists>s'. allocate_process now s pid sz SEGMENTATION = Inr (True, s') \<and> memory s' = ?new"
    unfolding allocate_process_def by auto
qed

theorem segmentation_allocation_witness:
  "page_size example_manager \<noteq> 0 \<and>
   memory example_manager =
     [] @ \<lparr>blk_start = 0, blk_end = 99, blk_size = 100, blk_process_id = None\<rparr> # [] \<and>
   (\<exists>s'. allocate_process 0 example_manager 1 30 SEGMENTATION = Inr (True, s') \<and>
      memory s' =
        [\<lparr>blk_start = 0, blk_end = 29, blk_size = 30, blk_process_id = Some 1\<rparr>,
         \<lparr>blk_start = 30, blk_end = 99, blk_size = 70, blk_process_id = None\<rparr>]) \<and>
   (\<exists>s'. allocate_process 0 example_manager 1 200 SEGMENTATION = Inr (False, s') \<and>
      memory s' = memory example_manager \<and> page_table s' = page_table example_manager \<and>
      allocated_processes s' = allocated_processes example_manager \<and>
      mstats s' = mstats example_manager)"
proof -
  have h: "page_size example_manager \<noteq> 0" by (simp add: example_manager_def)
  have m: "memory example_manager =
     [] @ \<lparr>blk_start = 0, blk_end = 99, blk_size = 100, blk_process_id = None\<rparr> # []"
    by (simp add: example_manager_def)
  have none: "\<forall>b \<in> set (memory example_manager). \<not> (blk_process_id b = None \<and> 200 \<le> blk_size b)"
    by (simp add: example_manager_def)
  have pre: "memory example_manager =
       [] @ \<lparr>blk_start = 0, blk_end = 99, blk_size = 100, blk_process_id = None\<rparr> # [] \<and>
     (\<forall>x \<in> set []. \<not> (blk_process_id x = None \<and> 30 \<le> blk_size x)) \<and>
     blk_process_id \<lparr>blk_start = 0, blk_end = 99, blk_size = 100, blk_process_id = None\<rparr> = None \<and>
     30 \<le> blk_size \<lparr>blk_start = 0, blk_end = 99, blk_size = 100, blk_process_id = None\<rparr>"
    by (simp add: example_manager_def)
  have a: "\<exists>s'. allocate_process 0 example_manager 1 30 SEGMENTATION = Inr (True, s') \<and>
      memory s' =
        [\<lparr>blk_start = 0, blk_end = 29, blk_size = 30, blk_process_id = Some 1\<rparr>,
         \<lparr>blk_start = 30, blk_end = 99, blk_size = 70, blk_process_id = None\<rparr>]"
    using segmentation_allocation [OF h, of 30 0 1, THEN conjunct2, THEN spec, THEN spec, THEN spec, THEN mp, OF pre]
    by simp
  have b: "\<exists>s'. allocate_process 0 example_manager 1 200 SEGMENTATION = Inr (False, s') \<and>
      memory s' = memory example_manager \<and> page_table s' = page_table example_manager \<and>
      allocated_processes s' = allocated_processes example_manager \<and>
      mstats s' = mstats example_manager"
    using segmentation_allocation [OF h, of 200 0 1, THEN conjunct1, THEN mp, OF none] .
  from h m a b show ?thesis by (intro conjI)
qed

section \<open>Internal fragmentation (C8)\<close>

text \<open>
  Claim C8. For a positive page size and a positive size, the registry entry that a
  successful paging allocation writes for the process contributes
  \<open>ceil(size / page_size) * page_size - size\<close> to the internal fragmentation, which is
  \<open>0\<close> exactly when the size is a multiple of the page size; the entry that a successful
  segmentation allocation writes contributes \<open>0\<close>. In both cases the statistic
  \<open>internal_fragmentation\<close> of the resulting engine is the sum of the contributions of
  the registry entries.
\<close>

theorem internal_fragmentation_contribution:
  assumes ps: "0 < page_size s" and sz: "0 < sz"
  shows
   "(\<forall>s'. allocate_process now s pid sz PAGING = Inr (True, s') \<longrightarrow>
       (\<exists>fs. map_of (allocated_processes s') pid = Some (Paging_info sz fs) \<and>
          info_fragmentation (page_size s') (Paging_info sz fs) =
            \<lceil>real_of_int sz / real_of_int (page_size s)\<rceil> * page_size s - sz \<and>
          (info_fragmentation (page_size s') (Paging_info sz fs) = 0 \<longleftrightarrow>
             sz mod page_size s = 0) \<and>
          internal_fragmentation (mstats s') =
            (\<Sum>(p, info)\<leftarrow>allocated_processes s'. info_fragmentation (page_size s') info))) \<and>
    (\<forall>s'. allocate_process now s pid sz SEGMENTATION = Inr (True, s') \<longrightarrow>
       (\<exists>st en. map_of (allocated_processes s') pid = Some (Segmentation_info sz st en) \<and>
          info_fragmentation (page_size s') (Segmentation_info sz st en) = 0 \<and>
          internal_fragmentation (mstats s') =
            (\<Sum>(p, info)\<leftarrow>allocated_processes s'. info_fragmentation (page_size s') info)))"
proof (intro conjI allI impI)
  fix s'
  assume r: "allocate_process now s pid sz PAGING = Inr (True, s')"
  let ?n = "(sz + page_size s - 1) div page_size s"
  let ?free = "filter (\<lambda>f. frm_process_id f = None) (page_table s)"
  have ps0: "page_size s \<noteq> 0" using ps by simp
  have enough: "\<not> int (length (free_frames (page_table s))) < ?n"
  proof
    assume "int (length (free_frames (page_table s))) < ?n"
    from paging_failure [OF ps0 this, of now pid] r show False
      by (simp add: allocate_process_def)
  qed
  have npos: "0 < ?n" by (rule pages_needed_pos [OF ps sz])
  from paging_success [OF ps0 enough, of now pid] r
  have reg: "allocated_processes s' =
       AList.update pid (Paging_info sz (map frame_id (py_take ?n ?free))) (allocated_processes s)"
    and psz: "page_size s' = page_size s"
    and st: "mstats s' = mstats (update_stats s')"
    by (auto simp: allocate_process_def)
  have len: "int (length (map frame_id (py_take ?n ?free))) = ?n"
    using enough npos by (simp add: py_take_def length_free_frames)
  show "\<exists>fs. map_of (allocated_processes s') pid = Some (Paging_info sz fs) \<and>
          info_fragmentation (page_size s') (Paging_info sz fs) =
            \<lceil>real_of_int sz / real_of_int (page_size s)\<rceil> * page_size s - sz \<and>
          (info_fragmentation (page_size s') (Paging_info sz fs) = 0 \<longleftrightarrow>
             sz mod page_size s = 0) \<and>
          internal_fragmentation (mstats s') =
            (\<Sum>(p, info)\<leftarrow>allocated_processes s'. info_fragmentation (page_size s') info)"
  proof (intro exI conjI)
    show "map_of (allocated_processes s') pid =
        Some (Paging_info sz (map frame_id (py_take ?n ?free)))"
      unfolding reg by (rule map_of_update_same)
    show "info_fragmentation (page_size s') (Paging_info sz (map frame_id (py_take ?n ?free))) =
            \<lceil>real_of_int sz / real_of_int (page_size s)\<rceil> * page_size s - sz"
      apply (simp only: info_fragmentation.simps psz len)
      apply (simp only: ceil_div [OF ps])
      done
    show "info_fragmentation (page_size s') (Paging_info sz (map frame_id (py_take ?n ?free))) = 0
            \<longleftrightarrow> sz mod page_size s = 0"
      apply (simp only: info_fragmentation.simps psz len)
      apply (rule paging_waste [OF ps])
      done
    show "internal_fragmentation (mstats s') =
            (\<Sum>(p, info)\<leftarrow>allocated_processes s'. info_fragmentation (page_size s') info)"
      by (subst st) (rule update_stats_internal)
  qed
next
  fix s'
  assume r: "allocate_process now s pid sz SEGMENTATION = Inr (True, s')"
  have ps0: "page_size s \<noteq> 0" using ps by simp
  have "first_fit pid sz (memory s) \<noteq> None"
  proof
    assume "first_fit pid sz (memory s) = None"
    from segmentation_failure [OF this, of now] r show False
      by (simp add: allocate_process_def)
  qed
  then obtain c mem where c: "first_fit pid sz (memory s) = Some (c, mem)" by auto
  from segmentation_success [OF c ps0, of now] r
  have reg: "allocated_processes s' =
       AList.update pid (Segmentation_info sz (blk_start c) (blk_end c)) (allocated_processes s)"
    and st: "mstats s' = mstats (update_stats s')"
    by (auto simp: allocate_process_def)
  show "\<exists>st en. map_of (allocated_processes s') pid = Some (Segmentation_info sz st en) \<and>
          info_fragmentation (page_size s') (Segmentation_info sz st en) = 0 \<and>
          internal_fragmentation (mstats s') =
            (\<Sum>(p, info)\<leftarrow>allocated_processes s'. info_fragmentation (page_size s') info)"
  proof (intro exI conjI)
    show "map_of (allocated_processes s') pid =
        Some (Segmentation_info sz (blk_start c) (blk_end c))"
      unfolding reg by (rule map_of_update_same)
    show "info_fragmentation (page_size s') (Segmentation_info sz (blk_start c) (blk_end c)) = 0"
      by simp
    show "internal_fragmentation (mstats s') =
            (\<Sum>(p, info)\<leftarrow>allocated_processes s'. info_fragmentation (page_size s') info)"
      by (subst st) (rule update_stats_internal)
  qed
qed

theorem internal_fragmentation_contribution_witness:
  "0 < page_size example_manager \<and> (0::int) < 25 \<and>
   (\<exists>s'. allocate_process 0 example_manager 1 25 PAGING = Inr (True, s') \<and>
      (\<exists>fs. map_of (allocated_processes s') 1 = Some (Paging_info 25 fs) \<and>
         info_fragmentation (page_size s') (Paging_info 25 fs) = 5 \<and>
         internal_fragmentation (mstats s') = 5)) \<and>
   (\<exists>s'. allocate_process 0 example_manager 1 25 SEGMENTATION = Inr (True, s') \<and>
      (\<exists>st en. map_of (allocated_processes s') 1 = Some (Segmentation_info 25 st en) \<and>
         info_fragmentation (page_size s') (Segmentation_info 25 st en) = 0 \<and>
         internal_fragmentation (mstats s') = 0))"
proof -
  have h1: "0 < page_size example_manager" by (simp add: example_manager_def)
  have h2: "(0::int) < 25" by simp
  have h0: "page_size example_manager \<noteq> 0" using h1 by simp
  have enough: "\<not> int (length (free_frames (page_table example_manager)))
      < (25 + page_size example_manager - 1) div page_size example_manager"
    by code_simp
  obtain s1 where r1: "allocate_process 0 example_manager 1 25 PAGING = Inr (True, s1)"
    and reg1: "allocated_processes s1 =
       AList.update 1 (Paging_info 25 (map frame_id
          (py_take ((25 + page_size example_manager - 1) div page_size example_manager)
             (filter (\<lambda>f. frm_process_id f = None) (page_table example_manager)))))
         (allocated_processes example_manager)"
    and ps1: "page_size s1 = page_size example_manager"
    using paging_success [OF h0 enough, of 0 1] unfolding allocate_process_def by auto
  have fit: "first_fit 1 25 (memory example_manager) =
      Some (\<lparr>blk_start = 0, blk_end = 24, blk_size = 25, blk_process_id = Some 1\<rparr>,
            [\<lparr>blk_start = 0, blk_end = 24, blk_size = 25, blk_process_id = Some 1\<rparr>,
             \<lparr>blk_start = 25, blk_end = 99, blk_size = 75, blk_process_id = None\<rparr>])"
    by (simp add: example_manager_def Let_def)
  obtain s2 where r2: "allocate_process 0 example_manager 1 25 SEGMENTATION = Inr (True, s2)"
    and reg2: "allocated_processes s2 =
       AList.update 1 (Segmentation_info 25 0 24) (allocated_processes example_manager)"
    and ps2: "page_size s2 = page_size example_manager"
    using segmentation_success [OF fit h0, of 0] unfolding allocate_process_def by auto
  note t = internal_fragmentation_contribution [OF h1 h2, of 0 1]
  have a: "\<exists>fs. map_of (allocated_processes s1) 1 = Some (Paging_info 25 fs) \<and>
         info_fragmentation (page_size s1) (Paging_info 25 fs) = 5 \<and>
         internal_fragmentation (mstats s1) = 5"
    using t [THEN conjunct1, THEN spec, THEN mp, OF r1]
    unfolding reg1 ps1 by (simp add: example_manager_def)
  have b: "\<exists>st en. map_of (allocated_processes s2) 1 = Some (Segmentation_info 25 st en) \<and>
         info_fragmentation (page_size s2) (Segmentation_info 25 st en) = 0 \<and>
         internal_fragmentation (mstats s2) = 0"
    using t [THEN conjunct2, THEN spec, THEN mp, OF r2]
    unfolding reg2 ps2 by (simp add: example_manager_def)
  from h1 h2 r1 a r2 b show ?thesis by blast
qed

section \<open>Segmentation and the frame table (C10)\<close>

text \<open>
  Claim C10. On an engine with a positive page size whose frame \<open>i\<close> covers the addresses
  \<open>i * page_size\<close> to \<open>(i + 1) * page_size - 1\<close> (as the constructor builds the table),
  a segmentation allocation of a positive size that claims the block from \<open>start\<close> to
  \<open>end\<close> sets the owner of exactly the frames whose id lies between
  \<open>start // page_size\<close> and
  \<open>end // page_size\<close>, which are exactly the frames that share at least one address with
  the block; a segmentation deallocation clears the owner of the frames selected in the
  same way by the first block of the process. So every frame that overlaps the block has
  the owner written last, whatever other block it overlaps. On the engine of 100 bytes in
  pages of 10, after segments of 25 bytes for processes 1 and 2, frame 2 (addresses 20 to
  29) is owned by process 2 although the addresses 20 to 24 are in the block of process
  1; after the deallocation of process 2 that frame is free while the block of process 1
  still ends at address 24.
\<close>

theorem segmentation_marks_overlapping_frames:
  fixes s :: manager and pid sz :: int
  assumes ps: "0 < page_size s"
    and geo: "\<forall>f \<in> set (page_table s).
                start_address f = frame_id f * page_size s \<and>
                end_address f = (frame_id f + 1) * page_size s - 1"
    and mem: "memory s = pre @ b # post"
  defines "en \<equiv> (if blk_size b = sz then blk_end b else blk_start b + sz - 1)"
  shows
   "(0 < sz \<and> (\<forall>x \<in> set pre. \<not> (blk_process_id x = None \<and> sz \<le> blk_size x)) \<and>
     blk_process_id b = None \<and> sz \<le> blk_size b \<longrightarrow>
       (\<exists>s'. allocate_process now s pid sz SEGMENTATION = Inr (True, s') \<and>
          map_of (allocated_processes s') pid = Some (Segmentation_info sz (blk_start b) en) \<and>
          page_table s' =
            map (\<lambda>f. if blk_start b div page_size s \<le> frame_id f \<and>
                         frame_id f \<le> en div page_size s
                      then f\<lparr>frm_process_id := Some pid\<rparr> else f) (page_table s) \<and>
          page_table s' =
            map (\<lambda>f. if blk_start b \<le> end_address f \<and> start_address f \<le> en
                      then f\<lparr>frm_process_id := Some pid\<rparr> else f) (page_table s) \<and>
          (\<forall>f \<in> set (page_table s').
             blk_start b \<le> end_address f \<and> start_address f \<le> en \<longrightarrow>
               frm_process_id f = Some pid))) \<and>
    ((\<exists>sz0 st0 en0. map_of (allocated_processes s) pid = Some (Segmentation_info sz0 st0 en0)) \<and>
     (\<forall>x \<in> set pre. blk_process_id x \<noteq> Some pid) \<and> blk_process_id b = Some pid \<longrightarrow>
       (\<exists>s'. deallocate_process now s pid = Inr (True, s') \<and>
          page_table s' =
            map (\<lambda>f. if blk_start b div page_size s \<le> frame_id f \<and>
                         frame_id f \<le> blk_end b div page_size s
                      then f\<lparr>frm_process_id := None\<rparr> else f) (page_table s) \<and>
          page_table s' =
            map (\<lambda>f. if blk_start b \<le> end_address f \<and> start_address f \<le> blk_end b
                      then f\<lparr>frm_process_id := None\<rparr> else f) (page_table s) \<and>
          (\<forall>f \<in> set (page_table s').
             blk_start b \<le> end_address f \<and> start_address f \<le> blk_end b \<longrightarrow>
               frm_process_id f = None))) \<and>
    (case allocate_process 0 example_manager 1 25 SEGMENTATION of Inl e \<Rightarrow> False
     | Inr (ok1, s1) \<Rightarrow> ok1 \<and>
        (case allocate_process 0 s1 2 25 SEGMENTATION of Inl e \<Rightarrow> False
         | Inr (ok2, s2) \<Rightarrow> ok2 \<and>
            memory s2 =
              [\<lparr>blk_start = 0, blk_end = 24, blk_size = 25, blk_process_id = Some 1\<rparr>,
               \<lparr>blk_start = 25, blk_end = 49, blk_size = 25, blk_process_id = Some 2\<rparr>,
               \<lparr>blk_start = 50, blk_end = 99, blk_size = 50, blk_process_id = None\<rparr>] \<and>
            map frm_process_id (page_table s1) = replicate 3 (Some 1) @ replicate 7 None \<and>
            map frm_process_id (page_table s2) =
              replicate 2 (Some 1) @ replicate 3 (Some 2) @ replicate 5 None \<and>
            (case deallocate_process 0 s2 2 of Inl e \<Rightarrow> False
             | Inr (ok3, s3) \<Rightarrow> ok3 \<and>
                memory s3 =
                  [\<lparr>blk_start = 0, blk_end = 24, blk_size = 25, blk_process_id = Some 1\<rparr>,
                   \<lparr>blk_start = 25, blk_end = 99, blk_size = 75, blk_process_id = None\<rparr>] \<and>
                map frm_process_id (page_table s3) =
                  replicate 2 (Some 1) @ replicate 8 None \<and>
                map (\<lambda>f. (start_address f, end_address f)) (page_table s3) ! 2 = (20, 29))))"
proof (intro conjI impI)
  assume a: "0 < sz \<and> (\<forall>x \<in> set pre. \<not> (blk_process_id x = None \<and> sz \<le> blk_size x)) \<and>
     blk_process_id b = None \<and> sz \<le> blk_size b"
  have ps0: "page_size s \<noteq> 0" using ps by simp
  let ?c = "if blk_size b = sz then b\<lparr>blk_process_id := Some pid\<rparr>
            else \<lparr>blk_start = blk_start b, blk_end = blk_start b + sz - 1, blk_size = sz,
                  blk_process_id = Some pid\<rparr>"
  have "\<exists>mem'. first_fit pid sz (memory s) = Some (?c, mem')"
    unfolding mem using first_fit_split [of pre sz b pid post] a by simp
  then obtain mem' where fit: "first_fit pid sz (memory s) = Some (?c, mem')" ..
  have cs: "blk_start ?c = blk_start b" and ce: "blk_end ?c = en"
    by (simp_all add: en_def)
  from segmentation_success [OF fit ps0, of now]
  obtain s' where r: "allocate_process_segmentation now s pid sz = Inr (True, s')"
    and pt: "page_table s' = mark_frames (page_size s) ?c (Some pid) (page_table s)"
    and reg: "allocated_processes s' =
       AList.update pid (Segmentation_info sz (blk_start ?c) (blk_end ?c)) (allocated_processes s)"
    by blast
  have pt1: "page_table s' =
            map (\<lambda>f. if blk_start b div page_size s \<le> frame_id f \<and>
                         frame_id f \<le> en div page_size s
                      then f\<lparr>frm_process_id := Some pid\<rparr> else f) (page_table s)"
    unfolding pt mark_frames_def Let_def cs ce ..
  have pt2: "page_table s' =
            map (\<lambda>f. if blk_start b \<le> end_address f \<and> start_address f \<le> en
                      then f\<lparr>frm_process_id := Some pid\<rparr> else f) (page_table s)"
    unfolding pt mark_frames_overlap [OF ps geo] cs ce ..
  have own: "\<forall>f \<in> set (page_table s').
             blk_start b \<le> end_address f \<and> start_address f \<le> en \<longrightarrow>
               frm_process_id f = Some pid"
    unfolding pt2 by (rule mark_frames_owner) simp
  show "\<exists>s'. allocate_process now s pid sz SEGMENTATION = Inr (True, s') \<and>
          map_of (allocated_processes s') pid = Some (Segmentation_info sz (blk_start b) en) \<and>
          page_table s' =
            map (\<lambda>f. if blk_start b div page_size s \<le> frame_id f \<and>
                         frame_id f \<le> en div page_size s
                      then f\<lparr>frm_process_id := Some pid\<rparr> else f) (page_table s) \<and>
          page_table s' =
            map (\<lambda>f. if blk_start b \<le> end_address f \<and> start_address f \<le> en
                      then f\<lparr>frm_process_id := Some pid\<rparr> else f) (page_table s) \<and>
          (\<forall>f \<in> set (page_table s').
             blk_start b \<le> end_address f \<and> start_address f \<le> en \<longrightarrow>
               frm_process_id f = Some pid)"
  proof (intro exI conjI)
    show "allocate_process now s pid sz SEGMENTATION = Inr (True, s')"
      by (simp add: allocate_process_def r)
    show "map_of (allocated_processes s') pid = Some (Segmentation_info sz (blk_start b) en)"
      unfolding reg cs ce by (rule map_of_update_same)
  qed (rule pt1 pt2 own)+
next
  assume a: "(\<exists>sz0 st0 en0. map_of (allocated_processes s) pid = Some (Segmentation_info sz0 st0 en0)) \<and>
     (\<forall>x \<in> set pre. blk_process_id x \<noteq> Some pid) \<and> blk_process_id b = Some pid"
  have ps0: "page_size s \<noteq> 0" using ps by simp
  from a obtain sz0 st0 en0 where
    reg: "map_of (allocated_processes s) pid = Some (Segmentation_info sz0 st0 en0)" by blast
  let ?c = "b\<lparr>blk_process_id := None\<rparr>"
  have rel: "release_block pid (memory s) = Some (?c, pre @ ?c # post)"
    unfolding mem using a by (intro release_block_split) simp_all
  from deallocate_segmentation_found [OF reg rel ps0, of now]
  obtain s' where r: "deallocate_process now s pid = Inr (True, s')"
    and pt: "page_table s' = mark_frames (page_size s) ?c None (page_table s)"
    by blast
  have cs: "blk_start ?c = blk_start b" and ce: "blk_end ?c = blk_end b" by simp_all
  have pt1: "page_table s' =
            map (\<lambda>f. if blk_start b div page_size s \<le> frame_id f \<and>
                         frame_id f \<le> blk_end b div page_size s
                      then f\<lparr>frm_process_id := None\<rparr> else f) (page_table s)"
    unfolding pt mark_frames_def Let_def cs ce ..
  have pt2: "page_table s' =
            map (\<lambda>f. if blk_start b \<le> end_address f \<and> start_address f \<le> blk_end b
                      then f\<lparr>frm_process_id := None\<rparr> else f) (page_table s)"
    unfolding pt mark_frames_overlap [OF ps geo] cs ce ..
  have own: "\<forall>f \<in> set (page_table s').
             blk_start b \<le> end_address f \<and> start_address f \<le> blk_end b \<longrightarrow>
               frm_process_id f = None"
    unfolding pt2 by (rule mark_frames_owner) simp
  show "\<exists>s'. deallocate_process now s pid = Inr (True, s') \<and>
          page_table s' =
            map (\<lambda>f. if blk_start b div page_size s \<le> frame_id f \<and>
                         frame_id f \<le> blk_end b div page_size s
                      then f\<lparr>frm_process_id := None\<rparr> else f) (page_table s) \<and>
          page_table s' =
            map (\<lambda>f. if blk_start b \<le> end_address f \<and> start_address f \<le> blk_end b
                      then f\<lparr>frm_process_id := None\<rparr> else f) (page_table s) \<and>
          (\<forall>f \<in> set (page_table s').
             blk_start b \<le> end_address f \<and> start_address f \<le> blk_end b \<longrightarrow>
               frm_process_id f = None)"
    using r pt1 pt2 own by (intro exI conjI)
next
  show "(case allocate_process 0 example_manager 1 25 SEGMENTATION of Inl e \<Rightarrow> False
     | Inr (ok1, s1) \<Rightarrow> ok1 \<and>
        (case allocate_process 0 s1 2 25 SEGMENTATION of Inl e \<Rightarrow> False
         | Inr (ok2, s2) \<Rightarrow> ok2 \<and>
            memory s2 =
              [\<lparr>blk_start = 0, blk_end = 24, blk_size = 25, blk_process_id = Some 1\<rparr>,
               \<lparr>blk_start = 25, blk_end = 49, blk_size = 25, blk_process_id = Some 2\<rparr>,
               \<lparr>blk_start = 50, blk_end = 99, blk_size = 50, blk_process_id = None\<rparr>] \<and>
            map frm_process_id (page_table s1) = replicate 3 (Some 1) @ replicate 7 None \<and>
            map frm_process_id (page_table s2) =
              replicate 2 (Some 1) @ replicate 3 (Some 2) @ replicate 5 None \<and>
            (case deallocate_process 0 s2 2 of Inl e \<Rightarrow> False
             | Inr (ok3, s3) \<Rightarrow> ok3 \<and>
                memory s3 =
                  [\<lparr>blk_start = 0, blk_end = 24, blk_size = 25, blk_process_id = Some 1\<rparr>,
                   \<lparr>blk_start = 25, blk_end = 99, blk_size = 75, blk_process_id = None\<rparr>] \<and>
                map frm_process_id (page_table s3) =
                  replicate 2 (Some 1) @ replicate 8 None \<and>
                map (\<lambda>f. (start_address f, end_address f)) (page_table s3) ! 2 = (20, 29))))"
    by code_simp
qed

theorem segmentation_marks_overlapping_frames_witness:
  "0 < page_size example_manager \<and>
   (\<exists>s1. allocate_process 0 example_manager 1 25 SEGMENTATION = Inr (True, s1) \<and>
      map_of (allocated_processes s1) 1 = Some (Segmentation_info 25 0 24) \<and>
      map frm_process_id (page_table s1) = replicate 3 (Some 1) @ replicate 7 None \<and>
      (\<exists>s2. deallocate_process 1 s1 1 = Inr (True, s2) \<and>
         map frm_process_id (page_table s2) = replicate 10 None))"
proof -
  let ?b = "\<lparr>blk_start = 0, blk_end = 99, blk_size = 100, blk_process_id = None\<rparr>"
  let ?c = "\<lparr>blk_start = 0, blk_end = 24, blk_size = 25, blk_process_id = Some (1::int)\<rparr>"
  let ?r = "\<lparr>blk_start = 25, blk_end = 99, blk_size = 75, blk_process_id = None\<rparr>"
  have h1: "0 < page_size example_manager" by (simp add: example_manager_def)
  have h0: "page_size example_manager \<noteq> 0" using h1 by simp
  have psz: "page_size example_manager = 10" by (simp add: example_manager_def)
  have geo0: "\<forall>f \<in> set (page_table example_manager).
                start_address f = frame_id f * page_size example_manager \<and>
                end_address f = (frame_id f + 1) * page_size example_manager - 1"
    by (simp add: example_manager_def new_frame_def)
  have mem0: "memory example_manager = [] @ ?b # []" by (simp add: example_manager_def)
  have fit: "first_fit 1 25 (memory example_manager) = Some (?c, [?c, ?r])"
    by (simp add: example_manager_def Let_def)
  from segmentation_success [OF fit h0, of 0]
  obtain s1 where r1: "allocate_process 0 example_manager 1 25 SEGMENTATION = Inr (True, s1)"
    and m1: "memory s1 = [] @ ?c # [?r]"
    and p1: "page_table s1 = mark_frames (page_size example_manager) ?c (Some 1)
                (page_table example_manager)"
    and reg1: "allocated_processes s1 =
        AList.update 1 (Segmentation_info 25 (blk_start ?c) (blk_end ?c))
          (allocated_processes example_manager)"
    and ps1: "page_size s1 = page_size example_manager"
    unfolding allocate_process_def by auto
  have t0: "\<exists>s'. allocate_process 0 example_manager 1 25 SEGMENTATION = Inr (True, s') \<and>
      map_of (allocated_processes s') 1 = Some (Segmentation_info 25 0 24) \<and>
      page_table s' =
        map (\<lambda>f. if 0 div page_size example_manager \<le> frame_id f \<and>
                     frame_id f \<le> 24 div page_size example_manager
                  then f\<lparr>frm_process_id := Some 1\<rparr> else f) (page_table example_manager)"
    using segmentation_marks_overlapping_frames
      [OF h1 geo0 mem0, of 25 0 1, THEN conjunct1]
    by simp blast
  have ev0: "map frm_process_id
       (map (\<lambda>f. if 0 div page_size example_manager \<le> frame_id f \<and>
                     frame_id f \<le> 24 div page_size example_manager
                  then f\<lparr>frm_process_id := Some 1\<rparr> else f) (page_table example_manager)) =
     replicate 3 (Some 1) @ replicate 7 None"
    by code_simp
  from t0 r1 have a: "map_of (allocated_processes s1) 1 = Some (Segmentation_info 25 0 24)"
    and b: "map frm_process_id (page_table s1) = replicate 3 (Some 1) @ replicate 7 None"
    using ev0 by auto
  have h1': "0 < page_size s1" using ps1 h1 by simp
  have geo1: "\<forall>f \<in> set (page_table s1).
                start_address f = frame_id f * page_size s1 \<and>
                end_address f = (frame_id f + 1) * page_size s1 - 1"
    unfolding p1 ps1 by code_simp
  have reg: "\<exists>sz0 st0 en0. map_of (allocated_processes s1) 1 = Some (Segmentation_info sz0 st0 en0)"
    using a by blast
  have t1: "\<exists>s'. deallocate_process 1 s1 1 = Inr (True, s') \<and>
      page_table s' =
        map (\<lambda>f. if blk_start ?c div page_size s1 \<le> frame_id f \<and>
                     frame_id f \<le> blk_end ?c div page_size s1
                  then f\<lparr>frm_process_id := None\<rparr> else f) (page_table s1)"
    using segmentation_marks_overlapping_frames
      [OF h1' geo1 m1, of 25 1 1, THEN conjunct2, THEN conjunct1] reg
    by simp blast
  have ev1: "map frm_process_id
      (map (\<lambda>f. if blk_start ?c div page_size example_manager \<le> frame_id f \<and>
                     frame_id f \<le> blk_end ?c div page_size example_manager
                  then f\<lparr>frm_process_id := None\<rparr> else f)
         (mark_frames (page_size example_manager) ?c (Some 1) (page_table example_manager))) =
      replicate 10 None"
    by code_simp
  from t1 have c: "\<exists>s2. deallocate_process 1 s1 1 = Inr (True, s2) \<and>
         map frm_process_id (page_table s2) = replicate 10 None"
    unfolding p1 ps1 using ev1 by auto
  from h1 r1 a b c show ?thesis by blast
qed

section \<open>Allocation followed by deallocation (C7)\<close>



section \<open>Registry and owners (C3)\<close>




end
